theory Spec2Isabelle
  imports Main "HOL-Library.Sublist"
begin

section \<open>Text and knowledge values\<close>

text \<open>
  The program is one Python module, \<^verbatim>\<open>main.py\<close>: it loads a JSON knowledge base at
  import time, answers a query by sending a prompt to an LLM client, optionally translates
  the answer, and memoises the final text in the module-level dictionary
  \<^verbatim>\<open>response_cache\<close>.

  Text that the module only copies, concatenates and compares (queries, language codes,
  prompts, answers, cache keys) is a \<^typ>\<open>string\<close>, read as the UTF-8 bytes of the Python
  \<^verbatim>\<open>str\<close>: concatenation, equality and emptiness are the same on both sides. The
  strings inside the knowledge base are inspected code point by code point by the JSON
  encoder, so they are lists of Unicode code points.
\<close>

type_synonym ustr = "nat list"

definition ustr :: "string \<Rightarrow> ustr" where
  "ustr s = map of_char s"

text \<open>
  What \<^verbatim>\<open>json.load\<close> returns: \<^verbatim>\<open>None\<close>, a bool, an int, a float, a str, a list or
  a dict with str keys (in insertion order). A float is carried as the text the encoder
  prints for it (\<^verbatim>\<open>float.__repr__\<close>, or \<^verbatim>\<open>NaN\<close>, \<^verbatim>\<open>Infinity\<close>, \<^verbatim>\<open>-Infinity\<close>):
  floating point arithmetic plays no part in the module.
\<close>

datatype json =
    PyNone
  | PyBool bool
  | PyInt int
  | PyFloat string
  | PyStr ustr
  | PyList "json list"
  | PyDict "(ustr \<times> json) list"

subsection \<open>\<^verbatim>\<open>json.dumps(knowledge_base, indent=2)\<close>\<close>

text \<open>
  The encoder of Python's standard library, as \<^verbatim>\<open>json.dumps\<close> runs it with
  \<^verbatim>\<open>indent=2\<close> and every other option at its default: \<^verbatim>\<open>ensure_ascii=True\<close>, item
  separator \<^verbatim>\<open>","\<close>, key separator \<^verbatim>\<open>": "\<close>, keys in insertion order.
\<close>

definition hex_digit :: "nat \<Rightarrow> char" where
  "hex_digit d = (if d < 10 then char_of (48 + d) else char_of (87 + d))"

text \<open>\<^verbatim>\<open>'\\u{0:04x}'.format(n)\<close>, for \<open>n < 0x10000\<close>.\<close>

definition u_escape :: "nat \<Rightarrow> string" where
  "u_escape n =
     [CHR 0x5C, CHR ''u'', hex_digit (n div 4096 mod 16), hex_digit (n div 256 mod 16),
      hex_digit (n div 16 mod 16), hex_digit (n mod 16)]"

text \<open>
  The replacement \<^verbatim>\<open>py_encode_basestring_ascii\<close> makes for one code point: the short
  escapes of \<^verbatim>\<open>ESCAPE_DCT\<close>, printable ASCII unchanged, \<^verbatim>\<open>\uXXXX\<close> for the rest of
  the basic plane and a surrogate pair beyond it.
\<close>

definition escape_cp :: "nat \<Rightarrow> string" where
  "escape_cp n =
     (if n = 0x5C then [CHR 0x5C, CHR 0x5C]
      else if n = 0x22 then [CHR 0x5C, CHR 0x22]
      else if n = 0x08 then [CHR 0x5C, CHR ''b'']
      else if n = 0x0C then [CHR 0x5C, CHR ''f'']
      else if n = 0x0A then [CHR 0x5C, CHR ''n'']
      else if n = 0x0D then [CHR 0x5C, CHR ''r'']
      else if n = 0x09 then [CHR 0x5C, CHR ''t'']
      else if 0x20 \<le> n \<and> n \<le> 0x7E then [char_of n]
      else if n < 0x10000 then u_escape n
      else (let m = n - 0x10000
            in u_escape (0xD800 + m div 1024 mod 1024) @ u_escape (0xDC00 + m mod 1024)))"

definition encode_basestring_ascii :: "ustr \<Rightarrow> string" where
  "encode_basestring_ascii s = [CHR 0x22] @ concat (map escape_cp s) @ [CHR 0x22]"

text \<open>\<^verbatim>\<open>int.__repr__\<close>: decimal digits, with a minus sign for a negative number.\<close>

fun repr_nat :: "nat \<Rightarrow> string" where
  "repr_nat n =
     (if n < 10 then [char_of (48 + n)] else repr_nat (n div 10) @ [char_of (48 + n mod 10)])"

declare repr_nat.simps [simp del]

definition repr_int :: "int \<Rightarrow> string" where
  "repr_int i = (if i < 0 then CHR ''-'' # repr_nat (nat (- i)) else repr_nat (nat i))"

text \<open>\<^verbatim>\<open>'\n' + _indent * _current_indent_level\<close>, with \<^verbatim>\<open>_indent\<close> two spaces.\<close>

definition newline_indent :: "nat \<Rightarrow> string" where
  "newline_indent level = CHR 0x0A # replicate (2 * level) CHR '' ''"

text \<open>
  \<^verbatim>\<open>_iterencode\<close> at a nesting level. \<open>iterencode_list\<close> and \<open>iterencode_dict\<close> print
  the members of a non-empty container, already at the members' level, separated by
  \<^verbatim>\<open>","\<close> and the newline with its indentation.
\<close>

fun iterencode :: "nat \<Rightarrow> json \<Rightarrow> string"
  and iterencode_list :: "nat \<Rightarrow> json list \<Rightarrow> string"
  and iterencode_dict :: "nat \<Rightarrow> (ustr \<times> json) list \<Rightarrow> string" where
  "iterencode level PyNone = ''null''"
| "iterencode level (PyBool b) = (if b then ''true'' else ''false'')"
| "iterencode level (PyInt i) = repr_int i"
| "iterencode level (PyFloat text) = text"
| "iterencode level (PyStr s) = encode_basestring_ascii s"
| "iterencode level (PyList []) = ''[]''"
| "iterencode level (PyList (v # vs)) =
     ''['' @ newline_indent (level + 1) @ iterencode_list (level + 1) (v # vs)
       @ newline_indent level @ '']''"
| "iterencode level (PyDict []) = ''{}''"
| "iterencode level (PyDict (kv # kvs)) =
     ''{'' @ newline_indent (level + 1) @ iterencode_dict (level + 1) (kv # kvs)
       @ newline_indent level @ ''}''"
| "iterencode_list level [] = []"
| "iterencode_list level [v] = iterencode level v"
| "iterencode_list level (v # v' # vs) =
     iterencode level v @ '','' @ newline_indent level @ iterencode_list level (v' # vs)"
| "iterencode_dict level [] = []"
| "iterencode_dict level [(k, v)] = encode_basestring_ascii k @ '': '' @ iterencode level v"
| "iterencode_dict level ((k, v) # kv # kvs) =
     encode_basestring_ascii k @ '': '' @ iterencode level v @ '','' @ newline_indent level
       @ iterencode_dict level (kv # kvs)"

definition json_dumps_indent2 :: "json \<Rightarrow> string" where
  "json_dumps_indent2 obj = iterencode 0 obj"

section \<open>Loading the knowledge base\<close>

text \<open>
  Lines 20 to 25. \<open>read_knowledge_base\<close> is what \<^verbatim>\<open>open\<close> followed by \<^verbatim>\<open>json.load\<close>
  does: the loaded value, or the exception raised. Only \<^verbatim>\<open>FileNotFoundError\<close> is
  caught; the handler prints a line and binds the empty dictionary. Any other exception
  leaves the module body, and the program does not start.
\<close>

datatype load_error =
    FileNotFoundError
  | PermissionError
  | IsADirectoryError
  | UnicodeDecodeError
  | JSONDecodeError

text \<open>
  What the module does that can be observed from outside a call: the membership test, the
  read and the write on \<^verbatim>\<open>response_cache\<close> (with the key, and the value written), a call
  of the LLM (with the prompt), a call of the translator (with the target language and the
  text), and a printed line.
\<close>

datatype event =
    CacheContains string
  | CacheGetItem string
  | CacheSetItem string string
  | LlmInvoke string
  | Translate string string
  | Print string

definition load_knowledge_base :: "load_error + json \<Rightarrow> load_error + json \<times> event list" where
  "load_knowledge_base read_knowledge_base =
     (case read_knowledge_base of
        Inr loaded \<Rightarrow> Inr (loaded, [])
      | Inl FileNotFoundError \<Rightarrow>
          Inr (PyDict [], [Print ''Error: knowledge_base.json not found. Please create one.''])
      | Inl e \<Rightarrow> Inl e)"

section \<open>The answer pipeline\<close>

text \<open>
  The two external services are parameters. A call returns a text or raises an
  \<^verbatim>\<open>Exception\<close> (carried as the text \<^verbatim>\<open>str(e)\<close> that the handler prints), and it may
  change the service's own state \<open>'x\<close>: the same prompt need not get the same answer
  twice.
\<close>

datatype outcome = Returns string | Raises string

record 'x env =
  knowledge_base :: json
  llm_invoke :: "string \<Rightarrow> 'x \<Rightarrow> outcome \<times> 'x"
  translate :: "string \<Rightarrow> string \<Rightarrow> 'x \<Rightarrow> outcome \<times> 'x"

text \<open>
  The mutable state: the dictionary \<^verbatim>\<open>response_cache\<close>, the state of the services, and
  the trace of what has been done so far (cache accesses, service calls, printed lines).
\<close>

record 'x world =
  response_cache :: "string \<rightharpoonup> string"
  services :: 'x
  trace :: "event list"

definition emit :: "event \<Rightarrow> 'x world \<Rightarrow> 'x world" where
  "emit e w = w\<lparr>trace := trace w @ [e]\<rparr>"

text \<open>The f-string of lines 39 to 47.\<close>

definition build_prompt :: "json \<Rightarrow> string \<Rightarrow> string" where
  "build_prompt kb user_query =
     ''\<newline>    You are a helpful University support chatbot. Your task is to answer user queries based ONLY on the following knowledge base.\<newline>    If the answer is not in the knowledge base, politely say that you don't have that information. Do not make up answers.\<newline>\<newline>    Knowledge Base:\<newline>    ''
     @ json_dumps_indent2 kb
     @ ''\<newline>\<newline>    User Query: ''
     @ user_query
     @ ''\<newline>    ''"

definition llm_fallback :: string where
  "llm_fallback =
     ''Sorry, I'm having trouble connecting to my brain right now. Please try again later.''"

text \<open>Lines 51 to 55: \<^verbatim>\<open>llm.invoke(prompt).content\<close> inside its \<^verbatim>\<open>try\<close>.\<close>

definition try_llm :: "'x env \<Rightarrow> string \<Rightarrow> 'x world \<Rightarrow> string \<times> 'x world" where
  "try_llm env prompt w =
     (case llm_invoke env prompt (services w) of
        (Returns content, x) \<Rightarrow> (content, emit (LlmInvoke prompt) (w\<lparr>services := x\<rparr>))
      | (Raises e, x) \<Rightarrow>
          (llm_fallback,
           emit (Print (''Error calling Gemini API: '' @ e))
             (emit (LlmInvoke prompt) (w\<lparr>services := x\<rparr>))))"

text \<open>
  Lines 59 to 67: the translation inside its \<^verbatim>\<open>try\<close>, entered when the language is not
  \<^verbatim>\<open>"en"\<close>. On an exception the text stays as it was.
\<close>

definition try_translate :: "'x env \<Rightarrow> string \<Rightarrow> string \<Rightarrow> 'x world \<Rightarrow> string \<times> 'x world" where
  "try_translate env language response_content w =
     (if language \<noteq> ''en'' then
        (case translate env language response_content (services w) of
           (Returns translated, x) \<Rightarrow>
             (translated, emit (Translate language response_content) (w\<lparr>services := x\<rparr>))
         | (Raises e, x) \<Rightarrow>
             (response_content,
              emit (Print (''Error during translation to '' @ [CHR 0x27] @ language
                           @ [CHR 0x27] @ '': '' @ e))
                (emit (Translate language response_content) (w\<lparr>services := x\<rparr>))))
      else (response_content, w))"

definition cache_key_of :: "string \<Rightarrow> string \<Rightarrow> string" where
  "cache_key_of user_query language = user_query @ ''_'' @ language"

text \<open>Lines 31 to 71.\<close>

definition generate_response_with_gemini ::
  "'x env \<Rightarrow> string \<Rightarrow> string \<Rightarrow> 'x world \<Rightarrow> string \<times> 'x world" where
  "generate_response_with_gemini env user_query language w =
     (let cache_key = cache_key_of user_query language;
          w0 = emit (CacheContains cache_key) w
      in case response_cache w0 cache_key of
           Some cached \<Rightarrow> (cached, emit (CacheGetItem cache_key) w0)
         | None \<Rightarrow>
             (let prompt = build_prompt (knowledge_base env) user_query;
                  (response_content, w1) = try_llm env prompt w0;
                  (response_content, w2) = try_translate env language response_content w1;
                  w3 = emit (CacheSetItem cache_key response_content)
                         (w2\<lparr>response_cache := (response_cache w2)(cache_key \<mapsto> response_content)\<rparr>)
              in (response_content, w3)))"

section \<open>The request handler\<close>

text \<open>
  \<^verbatim>\<open>request.form\<close> is the list of the form's fields in the order sent.
  \<^verbatim>\<open>form.get(key)\<close> is the first value sent under the key, or \<^verbatim>\<open>None\<close>;
  \<^verbatim>\<open>form.get(key, default)\<close> is the first value sent under the key, or the default.
  \<^verbatim>\<open>jsonify\<close> makes a response with status 200 whose body is the JSON object given.
\<close>

type_synonym form = "(string \<times> string) list"

record response =
  status_code :: nat
  json_body :: "(string \<times> string) list"

definition jsonify :: "(string \<times> string) list \<Rightarrow> response" where
  "jsonify obj = \<lparr>status_code = 200, json_body = obj\<rparr>"

definition form_get :: "form \<Rightarrow> string \<Rightarrow> string option" where
  "form_get f key = map_of f key"

definition form_get_default :: "form \<Rightarrow> string \<Rightarrow> string \<Rightarrow> string" where
  "form_get_default f key dflt = (case map_of f key of Some v \<Rightarrow> v | None \<Rightarrow> dflt)"

text \<open>
  Lines 82 to 93, from the point where \<^verbatim>\<open>request.form\<close> has been read: \<open>f\<close> is the
  list of fields the read delivered. \<^verbatim>\<open>not user_query\<close> holds for \<^verbatim>\<open>None\<close> and for the
  empty string.
\<close>

definition chat :: "'x env \<Rightarrow> form \<Rightarrow> 'x world \<Rightarrow> response \<times> 'x world" where
  "chat env f w =
     (let user_query = form_get f ''user_query'';
          language = form_get_default f ''language'' ''en''
      in case user_query of
           None \<Rightarrow> (jsonify [(''response'', ''Please enter a question.'')], w)
         | Some q \<Rightarrow>
             if q = [] then (jsonify [(''response'', ''Please enter a question.'')], w)
             else (let (response, w') = generate_response_with_gemini env q language w
                   in (jsonify [(''response'', response)], w')))"

section \<open>Start of the process\<close>

text \<open>
  Running the module body: the knowledge base is loaded (lines 20 to 25) and
  \<^verbatim>\<open>response_cache\<close> starts empty (line 28). The LLM client, the translator and the
  initial state of the services are given.
\<close>

definition startup ::
  "load_error + json \<Rightarrow> (string \<Rightarrow> 'x \<Rightarrow> outcome \<times> 'x) \<Rightarrow> (string \<Rightarrow> string \<Rightarrow> 'x \<Rightarrow> outcome \<times> 'x)
     \<Rightarrow> 'x \<Rightarrow> load_error + 'x env \<times> 'x world" where
  "startup read_knowledge_base llm translator x =
     (case load_knowledge_base read_knowledge_base of
        Inl e \<Rightarrow> Inl e
      | Inr (kb, printed) \<Rightarrow>
          Inr (\<lparr>knowledge_base = kb, llm_invoke = llm, translate = translator\<rparr>,
               \<lparr>response_cache = Map.empty, services = x, trace = printed\<rparr>))"

section \<open>What the trace shows\<close>

text \<open>The calls of the LLM, and the calls of the translator, among the entries of a trace.\<close>

fun is_llm_call :: "event \<Rightarrow> bool" where
  "is_llm_call (LlmInvoke prompt) = True"
| "is_llm_call e = False"

fun is_translate_call :: "event \<Rightarrow> bool" where
  "is_translate_call (Translate language text) = True"
| "is_translate_call e = False"

section \<open>Names for the steps of a cache miss\<close>

text \<open>
  The text the pipeline goes on with after the LLM call: the content returned, or the
  fallback text when the call raised.
\<close>

definition llm_text :: "outcome \<Rightarrow> string" where
  "llm_text r = (case r of Returns content \<Rightarrow> content | Raises e \<Rightarrow> llm_fallback)"

text \<open>The text after an attempted translation of \<open>text\<close>.\<close>

definition translated_text :: "outcome \<Rightarrow> string \<Rightarrow> string" where
  "translated_text r text = (case r of Returns translated \<Rightarrow> translated | Raises e \<Rightarrow> text)"

text \<open>
  The result and the world after the LLM step, and after the translation step, of a call
  whose key is not in the cache.
\<close>

definition after_llm :: "'x env \<Rightarrow> string \<Rightarrow> string \<Rightarrow> 'x world \<Rightarrow> string \<times> 'x world" where
  "after_llm env q l w =
     try_llm env (build_prompt (knowledge_base env) q) (emit (CacheContains (cache_key_of q l)) w)"

definition after_translate ::
  "'x env \<Rightarrow> string \<Rightarrow> string \<Rightarrow> 'x world \<Rightarrow> string \<times> 'x world" where
  "after_translate env q l w =
     try_translate env l (fst (after_llm env q l w)) (snd (after_llm env q l w))"

section \<open>Calls in a row\<close>

text \<open>
  The world after the pipeline has been called for each request of a list, one after the
  other; the texts returned are dropped.
\<close>

fun serve :: "'x env \<Rightarrow> (string \<times> string) list \<Rightarrow> 'x world \<Rightarrow> 'x world" where
  "serve env [] w = w"
| "serve env ((q, l) # requests) w =
     serve env requests (snd (generate_response_with_gemini env q l w))"

section \<open>Plain characters\<close>


section \<open>Reading a serialisation\<close>

text \<open>
  Two independent descriptions of a JSON text, against which the encoder above is checked:
  a reader, which recovers the value a text denotes, and a check of the layout, which
  says what it means for a text to be indented by two spaces per nesting level. Neither
  refers to the encoder.
\<close>

subsection \<open>Values that \<^verbatim>\<open>json.load\<close> can return\<close>

text \<open>
  A decimal digit; the text of an integer (an optional minus sign and digits); the text the
  encoder prints for a float: \<open>NaN\<close>, \<open>Infinity\<close>, \<open>-Infinity\<close>, or digits with a
  fraction or an exponent as \<^verbatim>\<open>float.__repr__\<close> writes them.
\<close>

definition is_digit :: "char \<Rightarrow> bool" where
  "is_digit c = (48 \<le> (of_char c :: nat) \<and> (of_char c :: nat) \<le> 57)"

definition is_int_text :: "string \<Rightarrow> bool" where
  "is_int_text t =
     (case t of
        [] \<Rightarrow> False
      | c # r \<Rightarrow> if c = CHR ''-'' then r \<noteq> [] \<and> list_all is_digit r else list_all is_digit (c # r))"

definition is_float_text :: "string \<Rightarrow> bool" where
  "is_float_text t =
     (t = ''NaN'' \<or> t = ''Infinity'' \<or> t = ''-Infinity''
      \<or> (t \<noteq> [] \<and> (is_digit (hd t) \<or> hd t = CHR ''-'')
          \<and> list_all (\<lambda>c. is_digit c \<or> c = CHR ''+'' \<or> c = CHR ''-'' \<or> c = CHR ''.'' \<or> c = CHR ''e'') t
          \<and> \<not> is_int_text t))"

text \<open>
  A Python string holds code points below \<open>0x110000\<close>. The JSON decoder joins a high
  surrogate escape that is followed by a low surrogate escape into one code point, so in
  a loaded string no high surrogate stands directly before a low one.
\<close>

definition is_high_surrogate :: "nat \<Rightarrow> bool" where
  "is_high_surrogate n = (0xD800 \<le> n \<and> n < 0xDC00)"

definition is_low_surrogate :: "nat \<Rightarrow> bool" where
  "is_low_surrogate n = (0xDC00 \<le> n \<and> n < 0xE000)"

fun no_surrogate_pair :: "ustr \<Rightarrow> bool" where
  "no_surrogate_pair (n # m # s) =
     (\<not> (is_high_surrogate n \<and> is_low_surrogate m) \<and> no_surrogate_pair (m # s))"
| "no_surrogate_pair s = True"

definition wf_ustr :: "ustr \<Rightarrow> bool" where
  "wf_ustr s = (list_all (\<lambda>n. n < 0x110000) s \<and> no_surrogate_pair s)"

fun wf_json :: "json \<Rightarrow> bool"
  and wf_json_list :: "json list \<Rightarrow> bool"
  and wf_json_dict :: "(ustr \<times> json) list \<Rightarrow> bool" where
  "wf_json (PyFloat t) = is_float_text t"
| "wf_json (PyStr s) = wf_ustr s"
| "wf_json (PyList vs) = wf_json_list vs"
| "wf_json (PyDict kvs) = wf_json_dict kvs"
| "wf_json v = True"
| "wf_json_list [] = True"
| "wf_json_list (v # vs) = (wf_json v \<and> wf_json_list vs)"
| "wf_json_dict [] = True"
| "wf_json_dict ((k, v) # kvs) = (wf_ustr k \<and> wf_json v \<and> wf_json_dict kvs)"

subsection \<open>The layout of a text\<close>



fun skip_string :: "string \<Rightarrow> string" where
  "skip_string [] = []"
| "skip_string [c] = []"
| "skip_string (c # c' # r) =
     (if c = CHR 0x22 then c' # r
      else if c = CHR 0x5C then skip_string r
      else skip_string (c' # r))"



subsection \<open>The reader\<close>

text \<open>
  JSON whitespace, and the characters that end a scalar token.
\<close>

definition is_ws :: "char \<Rightarrow> bool" where
  "is_ws c = (c = CHR '' '' \<or> c = CHR 0x0A \<or> c = CHR 0x0D \<or> c = CHR 0x09)"

definition skip_ws :: "string \<Rightarrow> string" where
  "skip_ws s = dropWhile is_ws s"













subsection \<open>Notions for the proofs\<close>







section \<open>The route as the framework serves it\<close>

text \<open>
  Line 84 is the first use of \<^verbatim>\<open>request.form\<close>: the framework parses the body of the
  request there. It delivers the fields, or it refuses a body beyond its limits by raising
  \<^verbatim>\<open>RequestEntityTooLarge\<close>; nothing in \<^verbatim>\<open>chat\<close> catches that, so the exception leaves
  the function and the framework answers with the status of the exception, 413, and an
  error page. \<open>post_chat\<close> is the request with that step: the outcome of the read,
  then \<open>chat\<close> on the fields delivered.
\<close>

datatype form_error = RequestEntityTooLarge

datatype reply = JsonReply response | ErrorPage nat

definition reply_status :: "reply \<Rightarrow> nat" where
  "reply_status r = (case r of JsonReply resp \<Rightarrow> status_code resp | ErrorPage code \<Rightarrow> code)"

definition post_chat :: "'x env \<Rightarrow> form_error + form \<Rightarrow> 'x world \<Rightarrow> reply \<times> 'x world" where
  "post_chat env request_form w =
     (case request_form of
        Inl RequestEntityTooLarge \<Rightarrow> (ErrorPage 413, w)
      | Inr f \<Rightarrow> (let (r, w') = chat env f w in (JsonReply r, w')))"

section \<open>Example services\<close>

text \<open>
  Services for the concrete runs below. Their state is the number of calls made so far;
  the LLM's answer changes with every call, as a sampled completion may.
\<close>

definition counting_llm :: "string \<Rightarrow> nat \<Rightarrow> outcome \<times> nat" where
  "counting_llm prompt n = (Returns (''answer '' @ repr_nat n), Suc n)"

definition failing_llm :: "string \<Rightarrow> nat \<Rightarrow> outcome \<times> nat" where
  "failing_llm prompt n = (Raises ''quota exceeded'', Suc n)"

definition tagging_translator :: "string \<Rightarrow> string \<Rightarrow> nat \<Rightarrow> outcome \<times> nat" where
  "tagging_translator target text n = (Returns (''['' @ target @ ''] '' @ text), Suc n)"

definition failing_translator :: "string \<Rightarrow> string \<Rightarrow> nat \<Rightarrow> outcome \<times> nat" where
  "failing_translator target text n = (Raises (target @ '' is not supported''), Suc n)"

definition library_kb :: json where
  "library_kb = PyDict [(ustr ''library_hours'', PyStr (ustr ''9am-9pm''))]"


definition fresh_world :: "nat world" where
  "fresh_world = \<lparr>response_cache = Map.empty, services = 0, trace = []\<rparr>"

definition demo_env :: "nat env" where
  "demo_env =
     \<lparr>knowledge_base = library_kb, llm_invoke = counting_llm, translate = tagging_translator\<rparr>"

definition llm_down_env :: "nat env" where
  "llm_down_env =
     \<lparr>knowledge_base = library_kb, llm_invoke = failing_llm, translate = tagging_translator\<rparr>"

definition translator_down_env :: "nat env" where
  "translator_down_env =
     \<lparr>knowledge_base = library_kb, llm_invoke = counting_llm, translate = failing_translator\<rparr>"

section \<open>Basic facts\<close>

lemma response_cache_emit [simp]: "response_cache (emit e w) = response_cache w"
  by (simp add: emit_def)

lemma services_emit [simp]: "services (emit e w) = services w"
  by (simp add: emit_def)

lemma trace_emit [simp]: "trace (emit e w) = trace w @ [e]"
  by (simp add: emit_def)

lemma try_llm_cache [simp]: "response_cache (snd (try_llm env p w)) = response_cache w"
  by (simp add: try_llm_def split: prod.splits outcome.splits)

lemma try_translate_cache [simp]:
  "response_cache (snd (try_translate env l t w)) = response_cache w"
  by (simp add: try_translate_def split: prod.splits outcome.splits)

lemma try_translate_en [simp]: "try_translate env ''en'' t w = (t, w)"
  by (simp add: try_translate_def)

lemma fresh_world_simps [simp]:
  "response_cache fresh_world = Map.empty" "services fresh_world = 0" "trace fresh_world = []"
  by (simp_all add: fresh_world_def)

lemma demo_env_simps [simp]:
  "knowledge_base demo_env = library_kb" "llm_invoke demo_env = counting_llm"
  "translate demo_env = tagging_translator"
  by (simp_all add: demo_env_def)

lemma llm_down_env_simps [simp]:
  "knowledge_base llm_down_env = library_kb" "llm_invoke llm_down_env = failing_llm"
  "translate llm_down_env = tagging_translator"
  by (simp_all add: llm_down_env_def)

lemma translator_down_env_simps [simp]:
  "knowledge_base translator_down_env = library_kb"
  "llm_invoke translator_down_env = counting_llm"
  "translate translator_down_env = failing_translator"
  by (simp_all add: translator_down_env_def)

lemma repr_nat_0: "repr_nat 0 = ''0''"
  by code_simp

lemma repr_nat_1: "repr_nat 1 = ''1''"
  by code_simp

lemma repr_nat_Suc_0: "repr_nat (Suc 0) = ''1''"
  by code_simp

subsection \<open>A call whose key is in the cache\<close>

text \<open>It is answered from the cache, with two cache reads and nothing else.\<close>

lemma generate_hit:
  "response_cache w (cache_key_of q l) = Some v \<Longrightarrow>
   generate_response_with_gemini env q l w =
     (v, emit (CacheGetItem (cache_key_of q l)) (emit (CacheContains (cache_key_of q l)) w))"
  by (simp add: generate_response_with_gemini_def Let_def)

text \<open>Whatever a call returns is in the cache under the call's key afterwards.\<close>

lemma generate_stores:
  "generate_response_with_gemini env q l w = (r, w') \<Longrightarrow>
   response_cache w' (cache_key_of q l) = Some r"
  by (auto simp add: generate_response_with_gemini_def Let_def split: option.splits prod.splits)

subsection \<open>A call whose key is not in the cache\<close>

lemma try_llm_eq:
  assumes "llm_invoke env p (services w) = (a, x)"
  shows "fst (try_llm env p w) = llm_text a"
    and "services (snd (try_llm env p w)) = x"
    and "filter is_translate_call (trace (snd (try_llm env p w)))
           = filter is_translate_call (trace w)"
    and "filter is_llm_call (trace (snd (try_llm env p w)))
           = filter is_llm_call (trace w) @ [LlmInvoke p]"
  using assms by (cases a; simp add: try_llm_def llm_text_def)+

lemma try_translate_eq:
  assumes "l \<noteq> ''en''" and "translate env l t (services w) = (b, x)"
  shows "fst (try_translate env l t w) = translated_text b t"
    and "services (snd (try_translate env l t w)) = x"
    and "filter is_translate_call (trace (snd (try_translate env l t w)))
           = filter is_translate_call (trace w) @ [Translate l t]"
    and "filter is_llm_call (trace (snd (try_translate env l t w)))
           = filter is_llm_call (trace w)"
  using assms by (cases b; simp add: try_translate_def translated_text_def)+

text \<open>The three steps in a row: LLM, translation, store.\<close>

lemma generate_miss:
  assumes "response_cache w (cache_key_of q l) = None"
  shows "generate_response_with_gemini env q l w =
    (fst (after_translate env q l w),
     emit (CacheSetItem (cache_key_of q l) (fst (after_translate env q l w)))
       ((snd (after_translate env q l w))
          \<lparr>response_cache :=
             (response_cache w)(cache_key_of q l \<mapsto> fst (after_translate env q l w))\<rparr>))"
  using assms
  by (simp add: generate_response_with_gemini_def Let_def case_prod_beta after_llm_def
      after_translate_def)

lemma generate_miss_result:
  assumes "response_cache w (cache_key_of q l) = None"
  shows "fst (generate_response_with_gemini env q l w) = fst (after_translate env q l w)"
    and "response_cache (snd (generate_response_with_gemini env q l w))
           = (response_cache w)(cache_key_of q l \<mapsto> fst (after_translate env q l w))"
    and "services (snd (generate_response_with_gemini env q l w))
           = services (snd (after_translate env q l w))"
    and "trace (snd (generate_response_with_gemini env q l w))
           = trace (snd (after_translate env q l w))
               @ [CacheSetItem (cache_key_of q l) (fst (after_translate env q l w))]"
  by (simp_all add: generate_miss [OF assms])

lemma after_llm_eq:
  assumes "llm_invoke env (build_prompt (knowledge_base env) q) (services w) = (a, x)"
  shows "fst (after_llm env q l w) = llm_text a"
    and "services (snd (after_llm env q l w)) = x"
    and "filter is_translate_call (trace (snd (after_llm env q l w)))
           = filter is_translate_call (trace w)"
    and "filter is_llm_call (trace (snd (after_llm env q l w)))
           = filter is_llm_call (trace w) @ [LlmInvoke (build_prompt (knowledge_base env) q)]"
  unfolding after_llm_def
  using try_llm_eq [of env "build_prompt (knowledge_base env) q"
      "emit (CacheContains (cache_key_of q l)) w" a x] assms
  by simp_all

lemma after_translate_eq:
  assumes "l \<noteq> ''en''"
    and "llm_invoke env (build_prompt (knowledge_base env) q) (services w) = (a, x1)"
    and "translate env l (llm_text a) x1 = (b, x2)"
  shows "fst (after_translate env q l w) = translated_text b (llm_text a)"
    and "services (snd (after_translate env q l w)) = x2"
    and "filter is_translate_call (trace (snd (after_translate env q l w)))
           = filter is_translate_call (trace w) @ [Translate l (llm_text a)]"
    and "filter is_llm_call (trace (snd (after_translate env q l w)))
           = filter is_llm_call (trace w) @ [LlmInvoke (build_prompt (knowledge_base env) q)]"
proof -
  note s1 = after_llm_eq [OF assms(2), of l]
  have t: "translate env l (fst (after_llm env q l w)) (services (snd (after_llm env q l w)))
             = (b, x2)"
    using assms(3) s1 by simp
  note s2 = try_translate_eq [OF assms(1) t]
  show "fst (after_translate env q l w) = translated_text b (llm_text a)"
    unfolding after_translate_def using s2(1) s1(1) by simp
  show "services (snd (after_translate env q l w)) = x2"
    unfolding after_translate_def using s2(2) by simp
  show "filter is_translate_call (trace (snd (after_translate env q l w)))
           = filter is_translate_call (trace w) @ [Translate l (llm_text a)]"
    unfolding after_translate_def using s2(3) s1(1,3) by simp
  show "filter is_llm_call (trace (snd (after_translate env q l w)))
           = filter is_llm_call (trace w) @ [LlmInvoke (build_prompt (knowledge_base env) q)]"
    unfolding after_translate_def using s2(4) s1(4) by simp
qed

lemma after_translate_en: "after_translate env q ''en'' w = after_llm env q ''en'' w"
  by (simp add: after_translate_def)

subsection \<open>Entries stay\<close>

text \<open>A call of the pipeline writes under a key only when the key is not in the cache.\<close>

lemma generate_keeps_entries:
  assumes "response_cache w k = Some v"
  shows "response_cache (snd (generate_response_with_gemini env q l w)) k = Some v"
proof (cases "response_cache w (cache_key_of q l)")
  case None
  with assms have "k \<noteq> cache_key_of q l"
    by auto
  with assms show ?thesis
    by (simp add: generate_miss_result(2) [OF None])
next
  case (Some u)
  with assms show ?thesis
    by (simp add: generate_hit [OF Some])
qed

lemma serve_keeps_entries:
  "response_cache w k = Some v \<Longrightarrow> response_cache (serve env requests w) k = Some v"
proof (induction requests arbitrary: w)
  case Nil
  then show ?case by simp
next
  case (Cons request requests)
  obtain q l where "request = (q, l)"
    by (cases request)
  with Cons show ?case
    by (simp add: generate_keeps_entries)
qed

section \<open>Repeated requests\<close>

text \<open>
  Claim C1. A call of the pipeline for a query and a language, then any number of other
  calls (none, for two calls in a row), then a second call for the same query and
  language: the second call returns the text the first one returned. After the first call
  that text is in the cache under the call's key (whether it is an answer, a translation or
  the fallback text), and no later call removes or replaces it. The second call looks the
  key up and does nothing else: the trace grows by the two cache reads only, so neither
  the LLM nor the translator is invoked, and the services and the cache are left as they
  were. This holds for every query, so for every non-empty one.
\<close>

theorem second_call_answered_from_cache:
  assumes "generate_response_with_gemini env q l w = (r1, w1)"
    and "generate_response_with_gemini env q l (serve env others w1) = (r2, w2)"
  shows "r2 = r1 \<and> response_cache w1 (cache_key_of q l) = Some r1
     \<and> trace w2 = trace (serve env others w1)
          @ [CacheContains (cache_key_of q l), CacheGetItem (cache_key_of q l)]
     \<and> services w2 = services (serve env others w1)
     \<and> response_cache w2 = response_cache (serve env others w1)"
proof -
  have cached: "response_cache w1 (cache_key_of q l) = Some r1"
    using assms(1) by (rule generate_stores)
  then have "response_cache (serve env others w1) (cache_key_of q l) = Some r1"
    by (rule serve_keeps_entries)
  from generate_hit [OF this, of env] assms(2) cached show ?thesis
    by auto
qed

text \<open>
  A run: the first call gets \<open>answer 0\<close> from the LLM, a call for another query gets
  \<open>answer 1\<close>, and the first query asked again still gets \<open>answer 0\<close>.
\<close>

theorem second_call_answered_from_cache_witness:
  "fst (generate_response_with_gemini demo_env ''hi'' ''en'' fresh_world) = ''answer 0''
   \<and> fst (generate_response_with_gemini demo_env ''bye'' ''en''
            (snd (generate_response_with_gemini demo_env ''hi'' ''en'' fresh_world)))
       = ''answer 1''
   \<and> fst (generate_response_with_gemini demo_env ''hi'' ''en''
            (serve demo_env [(''bye'', ''en'')]
               (snd (generate_response_with_gemini demo_env ''hi'' ''en'' fresh_world))))
       = ''answer 0''"
proof -
  obtain r1 w1 where
    first: "generate_response_with_gemini demo_env ''hi'' ''en'' fresh_world = (r1, w1)"
    by (cases "generate_response_with_gemini demo_env ''hi'' ''en'' fresh_world")
  have miss: "response_cache fresh_world (cache_key_of ''hi'' ''en'') = None"
    by simp
  have a: "llm_invoke demo_env (build_prompt (knowledge_base demo_env) ''hi'')
             (services fresh_world) = (Returns ''answer 0'', 1)"
    by (simp add: counting_llm_def repr_nat_0)
  note g = generate_miss_result [OF miss, of demo_env]
  note s = after_llm_eq [OF a, of "''en''"]
  have r1: "r1 = ''answer 0''"
    using first g(1) s(1) by (simp add: after_translate_en llm_text_def)
  have s1: "services w1 = 1"
    using first g(3) s(2) by (simp add: after_translate_en)
  have cache1: "response_cache w1 = [''hi_en'' \<mapsto> ''answer 0'']"
    using first g(2) s(1) by (simp add: after_translate_en llm_text_def cache_key_of_def)
  have miss': "response_cache w1 (cache_key_of ''bye'' ''en'') = None"
    by (simp add: cache1 cache_key_of_def)
  have a': "llm_invoke demo_env (build_prompt (knowledge_base demo_env) ''bye'')
             (services w1) = (Returns ''answer 1'', 2)"
    by (simp add: counting_llm_def repr_nat_Suc_0 s1)
  have other: "fst (generate_response_with_gemini demo_env ''bye'' ''en'' w1) = ''answer 1''"
    using generate_miss_result(1) [OF miss', of demo_env] after_llm_eq(1) [OF a', of "''en''"]
    by (simp add: after_translate_en llm_text_def)
  have "fst (generate_response_with_gemini demo_env ''hi'' ''en''
            (serve demo_env [(''bye'', ''en'')] w1)) = r1"
    using second_call_answered_from_cache [OF first prod.collapse [symmetric], of "[(''bye'', ''en'')]"] by simp
  with first r1 other show ?thesis
    by simp
qed

section \<open>The empty query\<close>

text \<open>
  Claim C2. When the form has no \<^verbatim>\<open>user_query\<close> field, or an empty one, the handler
  answers with the fixed message \<open>Please enter a question.\<close> whatever the language field
  is, and the world it leaves is the world it found: the trace has no new entry (no cache
  read, no cache write, no call of the LLM or of the translator) and the cache holds what
  it held, so the message is not stored. The guard is the handler's (line 87); it stands
  before the call of the function that looks the cache up.
\<close>

theorem empty_query_rejected_untouched:
  assumes "form_get f ''user_query'' = None \<or> form_get f ''user_query'' = Some ''''"
  shows "chat env f w = (jsonify [(''response'', ''Please enter a question.'')], w)"
  using assms by (auto simp add: chat_def Let_def)

theorem empty_query_rejected_untouched_witness:
  "chat demo_env [(''language'', ''es'')] fresh_world
     = (\<lparr>status_code = 200, json_body = [(''response'', ''Please enter a question.'')]\<rparr>,
        fresh_world)
   \<and> chat demo_env [(''user_query'', ''''), (''language'', ''hi'')] fresh_world
     = (\<lparr>status_code = 200, json_body = [(''response'', ''Please enter a question.'')]\<rparr>,
        fresh_world)"
proof -
  have a: "form_get [(''language'', ''es'')] ''user_query'' = None
           \<or> form_get [(''language'', ''es'')] ''user_query'' = Some ''''"
    by (simp add: form_get_def)
  have b: "form_get [(''user_query'', ''''), (''language'', ''hi'')] ''user_query'' = None
           \<or> form_get [(''user_query'', ''''), (''language'', ''hi'')] ''user_query'' = Some ''''"
    by (simp add: form_get_def)
  show ?thesis
    using empty_query_rejected_untouched [OF a, of demo_env fresh_world]
      empty_query_rejected_untouched [OF b, of demo_env fresh_world]
    by (simp add: jsonify_def)
qed

section \<open>Failure of the LLM\<close>

text \<open>
  As the specification words it, a failed LLM call always ends with the fixed fallback text
  returned and cached. That does not hold for a language other than \<^verbatim>\<open>"en"\<close>: the
  fallback text goes through the translation step like any other text. Here the LLM raises,
  the language is \<^verbatim>\<open>"es"\<close> and the translator works; what is returned and cached is
  the translator's output, not the fallback text.
\<close>

theorem llm_failure_translated_counterexample:
  "fst (llm_invoke llm_down_env (build_prompt (knowledge_base llm_down_env) ''hi'')
          (services fresh_world)) = Raises ''quota exceeded''
   \<and> fst (generate_response_with_gemini llm_down_env ''hi'' ''es'' fresh_world) \<noteq> llm_fallback
   \<and> response_cache (snd (generate_response_with_gemini llm_down_env ''hi'' ''es'' fresh_world))
        (cache_key_of ''hi'' ''es'') \<noteq> Some llm_fallback"
proof -
  have miss: "response_cache fresh_world (cache_key_of ''hi'' ''es'') = None"
    by simp
  have a: "llm_invoke llm_down_env (build_prompt (knowledge_base llm_down_env) ''hi'')
             (services fresh_world) = (Raises ''quota exceeded'', 1)"
    by (simp add: failing_llm_def)
  have b: "translate llm_down_env ''es'' (llm_text (Raises ''quota exceeded'')) 1
             = (Returns (''[es] '' @ llm_fallback), 2)"
    by (simp add: tagging_translator_def llm_text_def)
  have "fst (generate_response_with_gemini llm_down_env ''hi'' ''es'' fresh_world)
          = ''[es] '' @ llm_fallback"
    using generate_miss_result(1) [OF miss, of llm_down_env] after_translate_eq(1) [OF _ a b]
    by (simp add: translated_text_def)
  moreover have
    "response_cache (snd (generate_response_with_gemini llm_down_env ''hi'' ''es'' fresh_world))
        (cache_key_of ''hi'' ''es'') = Some (''[es] '' @ llm_fallback)"
    using generate_miss_result(2) [OF miss, of llm_down_env] after_translate_eq(1) [OF _ a b]
    by (simp add: translated_text_def)
  ultimately show ?thesis
    using a by simp
qed

text \<open>
  Claim C3, as amended. On a cache miss, when the LLM call raises, the call of the pipeline
  still returns a text, and that text is what is stored under the key of the query and the
  language. For the language \<^verbatim>\<open>"en"\<close> it is the fallback text. For any other language
  the fallback text is handed to the translator: the translator's output is returned and
  cached when the translation succeeds, the fallback text when it fails.
\<close>

theorem llm_failure_fallback_then_translation:
  assumes "response_cache w (cache_key_of q l) = None"
    and "llm_invoke env (build_prompt (knowledge_base env) q) (services w) = (Raises e, x1)"
    and "generate_response_with_gemini env q l w = (r, w')"
  shows "response_cache w' (cache_key_of q l) = Some r
     \<and> (l = ''en'' \<longrightarrow> r = llm_fallback)
     \<and> (l \<noteq> ''en'' \<longrightarrow>
          r = (case fst (translate env l llm_fallback x1) of
                 Returns translated \<Rightarrow> translated
               | Raises e' \<Rightarrow> llm_fallback))"
proof -
  note g = generate_miss_result [OF assms(1), of env]
  from assms(3) have r: "r = fst (generate_response_with_gemini env q l w)"
    by simp
  have cached: "response_cache w' (cache_key_of q l) = Some r"
    using assms(3) by (rule generate_stores)
  have en: "r = llm_fallback" if "l = ''en''"
    unfolding r g(1) using that after_llm_eq(1) [OF assms(2), of "''en''"]
    by (simp add: after_translate_en llm_text_def)
  have other: "r = (case fst (translate env l llm_fallback x1) of
                 Returns translated \<Rightarrow> translated
               | Raises e' \<Rightarrow> llm_fallback)" if "l \<noteq> ''en''"
  proof -
    obtain b x2 where b: "translate env l (llm_text (Raises e)) x1 = (b, x2)"
      by (cases "translate env l (llm_text (Raises e)) x1")
    from after_translate_eq(1) [OF that assms(2) b] b show ?thesis
      unfolding r g(1) by (simp add: translated_text_def llm_text_def)
  qed
  from cached en other show ?thesis
    by simp
qed

text \<open>The LLM raises: for \<^verbatim>\<open>"en"\<close> the fallback text, for \<^verbatim>\<open>"es"\<close> its translation.\<close>

theorem llm_failure_fallback_then_translation_witness:
  "fst (generate_response_with_gemini llm_down_env ''hi'' ''en'' fresh_world) = llm_fallback
   \<and> response_cache (snd (generate_response_with_gemini llm_down_env ''hi'' ''en'' fresh_world))
        ''hi_en'' = Some llm_fallback
   \<and> fst (generate_response_with_gemini llm_down_env ''hi'' ''es'' fresh_world)
        = ''[es] '' @ llm_fallback"
proof -
  have a: "llm_invoke llm_down_env (build_prompt (knowledge_base llm_down_env) ''hi'')
             (services fresh_world) = (Raises ''quota exceeded'', 1)"
    by (simp add: failing_llm_def)
  have en: "response_cache fresh_world (cache_key_of ''hi'' ''en'') = None"
    and es: "response_cache fresh_world (cache_key_of ''hi'' ''es'') = None"
    by simp_all
  have k: "cache_key_of ''hi'' ''en'' = ''hi_en''"
    by (simp add: cache_key_of_def)
  from llm_failure_fallback_then_translation [OF en a prod.collapse [symmetric]]
    llm_failure_fallback_then_translation [OF es a prod.collapse [symmetric]] k
  show ?thesis
    by (simp add: tagging_translator_def)
qed

section \<open>Colliding cache keys\<close>

text \<open>
  Claim C4. The key is the query, an underscore and the language, so two different pairs
  can have one key: the query \<open>a_b\<close> with the language \<open>c\<close>, and the query \<open>a\<close> with the
  language \<open>b_c\<close>. After a call for the first pair, a call for the second pair returns the
  text of the first call; its trace holds the two cache reads and no call of a service.
\<close>

theorem cache_key_collision:
  "(''a_b'', ''c'') \<noteq> (''a'', ''b_c'')
   \<and> CHR ''_'' \<in> set ''a_b''
   \<and> cache_key_of ''a_b'' ''c'' = cache_key_of ''a'' ''b_c''
   \<and> fst (generate_response_with_gemini env ''a'' ''b_c''
             (snd (generate_response_with_gemini env ''a_b'' ''c'' w)))
       = fst (generate_response_with_gemini env ''a_b'' ''c'' w)
   \<and> trace (snd (generate_response_with_gemini env ''a'' ''b_c''
             (snd (generate_response_with_gemini env ''a_b'' ''c'' w))))
       = trace (snd (generate_response_with_gemini env ''a_b'' ''c'' w))
           @ [CacheContains ''a_b_c'', CacheGetItem ''a_b_c'']
   \<and> services (snd (generate_response_with_gemini env ''a'' ''b_c''
             (snd (generate_response_with_gemini env ''a_b'' ''c'' w))))
       = services (snd (generate_response_with_gemini env ''a_b'' ''c'' w))"
proof -
  obtain r1 w1 where first: "generate_response_with_gemini env ''a_b'' ''c'' w = (r1, w1)"
    by (cases "generate_response_with_gemini env ''a_b'' ''c'' w")
  have k: "cache_key_of ''a_b'' ''c'' = ''a_b_c''" "cache_key_of ''a'' ''b_c'' = ''a_b_c''"
    by (simp_all add: cache_key_of_def)
  have "response_cache w1 (cache_key_of ''a'' ''b_c'') = Some r1"
    using generate_stores [OF first] k by simp
  from generate_hit [OF this, of env] first k show ?thesis
    by simp
qed

section \<open>Translation\<close>

text \<open>
  Claim C5. On a cache miss with a language other than \<^verbatim>\<open>"en"\<close>, the translator is
  called once, with that language and the text the LLM step left (the LLM's content, or
  the fallback text when the LLM raised). When the translator returns, its output is the
  result; when it raises, the untranslated text is the result. In both cases the result is
  what the cache holds under the key afterwards.
\<close>

theorem translation_result_returned_and_cached:
  assumes "l \<noteq> ''en''"
    and "response_cache w (cache_key_of q l) = None"
    and "llm_invoke env (build_prompt (knowledge_base env) q) (services w) = (a, x1)"
    and "translate env l (llm_text a) x1 = (b, x2)"
    and "generate_response_with_gemini env q l w = (r, w')"
  shows "r = (case b of Returns translated \<Rightarrow> translated | Raises e \<Rightarrow> llm_text a)
     \<and> response_cache w' (cache_key_of q l) = Some r
     \<and> filter is_translate_call (trace w')
         = filter is_translate_call (trace w) @ [Translate l (llm_text a)]"
proof -
  note s = after_translate_eq [OF assms(1,3,4)]
  note g = generate_miss_result [OF assms(2), of env]
  from assms(5) have r: "r = fst (generate_response_with_gemini env q l w)"
    and w': "w' = snd (generate_response_with_gemini env q l w)"
    by simp_all
  have "r = (case b of Returns translated \<Rightarrow> translated | Raises e \<Rightarrow> llm_text a)"
    unfolding r g(1) s(1) by (simp add: translated_text_def)
  moreover have "response_cache w' (cache_key_of q l) = Some r"
    unfolding r w' g(1,2) by simp
  moreover have "filter is_translate_call (trace w')
      = filter is_translate_call (trace w) @ [Translate l (llm_text a)]"
    unfolding w' g(4) using s(3) by simp
  ultimately show ?thesis
    by simp
qed

text \<open>
  The query \<open>hi\<close> for \<^verbatim>\<open>"es"\<close>: with a working translator the translation is returned
  and cached, with a failing one the LLM's English answer.
\<close>

theorem translation_result_returned_and_cached_witness:
  "fst (generate_response_with_gemini demo_env ''hi'' ''es'' fresh_world) = ''[es] answer 0''
   \<and> response_cache (snd (generate_response_with_gemini demo_env ''hi'' ''es'' fresh_world))
        ''hi_es'' = Some ''[es] answer 0''
   \<and> fst (generate_response_with_gemini translator_down_env ''hi'' ''es'' fresh_world)
        = ''answer 0''
   \<and> response_cache
        (snd (generate_response_with_gemini translator_down_env ''hi'' ''es'' fresh_world))
        ''hi_es'' = Some ''answer 0''"
proof -
  have l: "''es'' \<noteq> ''en''"
    by simp
  have miss: "response_cache fresh_world (cache_key_of ''hi'' ''es'') = None"
    by simp
  have k: "cache_key_of ''hi'' ''es'' = ''hi_es''"
    by (simp add: cache_key_of_def)
  have a: "llm_invoke demo_env (build_prompt (knowledge_base demo_env) ''hi'')
             (services fresh_world) = (Returns ''answer 0'', 1)"
    by (simp add: counting_llm_def repr_nat_0)
  have b: "translate demo_env ''es'' (llm_text (Returns ''answer 0'')) 1
             = (Returns ''[es] answer 0'', 2)"
    by (simp add: tagging_translator_def llm_text_def)
  have a': "llm_invoke translator_down_env
              (build_prompt (knowledge_base translator_down_env) ''hi'')
              (services fresh_world) = (Returns ''answer 0'', 1)"
    by (simp add: counting_llm_def repr_nat_0)
  have b': "translate translator_down_env ''es'' (llm_text (Returns ''answer 0'')) 1
             = (Raises ''es is not supported'', 2)"
    by (simp add: failing_translator_def llm_text_def)
  from translation_result_returned_and_cached [OF l miss a b prod.collapse [symmetric]]
    translation_result_returned_and_cached [OF l miss a' b' prod.collapse [symmetric]] k
  show ?thesis
    by (simp add: llm_text_def)
qed

text \<open>
  Claim C6. A call with the language \<^verbatim>\<open>"en"\<close> never calls the translator: the calls of
  the translator in the trace are the same before and after, whether the key is in the
  cache or not and whether the LLM returns or raises. On a cache miss the result is the
  text of the LLM step unchanged (the LLM's content, or the fallback text), the services
  are left in the state the LLM call put them in, and the result is cached.
\<close>

theorem english_never_translated:
  assumes "generate_response_with_gemini env q ''en'' w = (r, w')"
  shows "filter is_translate_call (trace w') = filter is_translate_call (trace w)
     \<and> (response_cache w (cache_key_of q ''en'') = None \<longrightarrow>
          r = llm_text (fst (llm_invoke env (build_prompt (knowledge_base env) q) (services w)))
          \<and> services w' = snd (llm_invoke env (build_prompt (knowledge_base env) q) (services w))
          \<and> response_cache w' (cache_key_of q ''en'') = Some r)"
proof (cases "response_cache w (cache_key_of q ''en'')")
  case None
  obtain a x where
    a: "llm_invoke env (build_prompt (knowledge_base env) q) (services w) = (a, x)"
    by (cases "llm_invoke env (build_prompt (knowledge_base env) q) (services w)")
  note s = after_llm_eq [OF a, of "''en''"]
  note g = generate_miss_result [OF None, of env]
  from assms have r: "r = fst (generate_response_with_gemini env q ''en'' w)"
    and w': "w' = snd (generate_response_with_gemini env q ''en'' w)"
    by simp_all
  have "filter is_translate_call (trace w') = filter is_translate_call (trace w)"
    unfolding w' g(4) after_translate_en using s(3) by simp
  moreover have "r = llm_text a"
    unfolding r g(1) after_translate_en by (rule s(1))
  moreover have "services w' = x"
    unfolding w' g(3) after_translate_en by (rule s(2))
  moreover have "response_cache w' (cache_key_of q ''en'') = Some r"
    using assms by (rule generate_stores)
  ultimately show ?thesis
    using a by simp
next
  case (Some v)
  from generate_hit [OF Some, of env] assms show ?thesis
    using Some by auto
qed

text \<open>English, with a working LLM and with a failing one: no call of the translator.\<close>

theorem english_never_translated_witness:
  "fst (generate_response_with_gemini demo_env ''hi'' ''en'' fresh_world) = ''answer 0''
   \<and> filter is_translate_call
        (trace (snd (generate_response_with_gemini demo_env ''hi'' ''en'' fresh_world))) = []
   \<and> fst (generate_response_with_gemini llm_down_env ''hi'' ''en'' fresh_world) = llm_fallback
   \<and> filter is_translate_call
        (trace (snd (generate_response_with_gemini llm_down_env ''hi'' ''en'' fresh_world))) = []"
proof -
  have miss: "response_cache fresh_world (cache_key_of ''hi'' ''en'') = None"
    by simp
  from english_never_translated [OF prod.collapse [symmetric], of demo_env "''hi''" fresh_world]
    english_never_translated [OF prod.collapse [symmetric], of llm_down_env "''hi''" fresh_world]
    miss
  show ?thesis
    by (simp add: counting_llm_def failing_llm_def repr_nat_0 llm_text_def)
qed

section \<open>The language field\<close>

text \<open>
  Claim C10. When the form has a \<^verbatim>\<open>language\<close> field and its value is the empty string,
  the language the handler passes on is the empty string, not the default \<^verbatim>\<open>"en"\<close>.
  On a cache miss for a non-empty query \<open>q\<close> the translator is then called with the empty
  target and the text of the LLM step; when that call raises, the untranslated text is the
  response, and it is stored under the key \<open>q\<close> followed by an underscore.
\<close>

theorem empty_language_field_is_translated:
  assumes "map_of f ''language'' = Some ''''"
    and "map_of f ''user_query'' = Some q"
    and "q \<noteq> ''''"
    and "response_cache w (q @ ''_'') = None"
    and "llm_invoke env (build_prompt (knowledge_base env) q) (services w) = (a, x1)"
    and "translate env '''' (llm_text a) x1 = (b, x2)"
  shows "form_get_default f ''language'' ''en'' = ''''
     \<and> filter is_translate_call (trace (snd (chat env f w)))
         = filter is_translate_call (trace w) @ [Translate '''' (llm_text a)]
     \<and> (\<forall>e. b = Raises e \<longrightarrow>
          fst (chat env f w) = jsonify [(''response'', llm_text a)]
          \<and> response_cache (snd (chat env f w))
              = (response_cache w)(q @ ''_'' \<mapsto> llm_text a))"
proof -
  have lang: "form_get_default f ''language'' ''en'' = ''''"
    using assms(1) by (simp add: form_get_default_def)
  have k: "cache_key_of q '''' = q @ ''_''"
    by (simp add: cache_key_of_def)
  have chat: "chat env f w =
      (jsonify [(''response'', fst (generate_response_with_gemini env q '''' w))],
       snd (generate_response_with_gemini env q '''' w))"
    using assms(2,3) lang by (simp add: chat_def Let_def form_get_def case_prod_beta)
  have miss: "response_cache w (cache_key_of q '''') = None"
    using assms(4) k by simp
  have ne: "'''' \<noteq> ''en''"
    by simp
  note g = generate_miss_result [OF miss, of env]
  note s = after_translate_eq [OF ne assms(5,6)]
  have "filter is_translate_call (trace (snd (chat env f w)))
         = filter is_translate_call (trace w) @ [Translate '''' (llm_text a)]"
    unfolding chat using g(4) s(3) by simp
  moreover have "fst (chat env f w) = jsonify [(''response'', llm_text a)]
          \<and> response_cache (snd (chat env f w))
              = (response_cache w)(q @ ''_'' \<mapsto> llm_text a)"
    if "b = Raises e" for e
    unfolding chat using g(1,2) s(1) that k by (simp add: translated_text_def)
  ultimately show ?thesis
    using lang by simp
qed

text \<open>
  The form \<open>user_query=hi&language=\<close> with a translator that rejects the empty target:
  the English answer comes back and is cached under \<open>hi_\<close>.
\<close>

theorem empty_language_field_is_translated_witness:
  "fst (chat translator_down_env [(''user_query'', ''hi''), (''language'', '''')] fresh_world)
     = \<lparr>status_code = 200, json_body = [(''response'', ''answer 0'')]\<rparr>
   \<and> response_cache
        (snd (chat translator_down_env [(''user_query'', ''hi''), (''language'', '''')]
           fresh_world)) ''hi_'' = Some ''answer 0''
   \<and> filter is_translate_call
        (trace (snd (chat translator_down_env [(''user_query'', ''hi''), (''language'', '''')]
           fresh_world))) = [Translate '''' ''answer 0'']"
proof -
  let ?f = "[(''user_query'', ''hi''), (''language'', '''')]"
  have 1: "map_of ?f ''language'' = Some ''''"
    by simp
  have 2: "map_of ?f ''user_query'' = Some ''hi''"
    by simp
  have 3: "''hi'' \<noteq> ''''"
    by simp
  have 4: "response_cache fresh_world (''hi'' @ ''_'') = None"
    by simp
  have 5: "llm_invoke translator_down_env
             (build_prompt (knowledge_base translator_down_env) ''hi'')
             (services fresh_world) = (Returns ''answer 0'', 1)"
    by (simp add: counting_llm_def repr_nat_0)
  have 6: "translate translator_down_env '''' (llm_text (Returns ''answer 0'')) 1
             = (Raises '' is not supported'', 2)"
    by (simp add: failing_translator_def llm_text_def)
  from empty_language_field_is_translated [OF 1 2 3 4 5 6] show ?thesis
    by (simp add: llm_text_def jsonify_def)
qed

section \<open>A missing knowledge base\<close>

text \<open>
  The handler at lines 23 to 25 is for \<^verbatim>\<open>FileNotFoundError\<close> alone. A file that is there
  but cannot be read raises \<^verbatim>\<open>PermissionError\<close>, which is not caught: the module body
  ends with the exception, no knowledge base is bound and the process does not start.
\<close>

theorem unreadable_knowledge_base_counterexample:
  "load_knowledge_base (Inl PermissionError) = Inl PermissionError
   \<and> startup (Inl PermissionError) counting_llm tagging_translator (0::nat)
       = Inl PermissionError"
  by (simp add: load_knowledge_base_def startup_def)

text \<open>
  Claim C8, as amended. When the knowledge file is not found at startup, the process
  starts all the same: one line is printed, the knowledge base is the empty dictionary and
  the cache is empty. A call of the pipeline in that state, for any query and language,
  calls the LLM once, with the prompt built from the empty dictionary, whose knowledge part
  is the text \<open>{}\<close>.
\<close>

theorem missing_knowledge_base_not_fatal:
  "startup (Inl FileNotFoundError) llm translator x =
     Inr (\<lparr>knowledge_base = PyDict [], llm_invoke = llm, translate = translator\<rparr>,
          \<lparr>response_cache = Map.empty, services = x,
           trace = [Print ''Error: knowledge_base.json not found. Please create one.'']\<rparr>)
   \<and> filter is_llm_call (trace (snd (generate_response_with_gemini
        \<lparr>knowledge_base = PyDict [], llm_invoke = llm, translate = translator\<rparr> q l
        \<lparr>response_cache = Map.empty, services = x,
           trace = [Print ''Error: knowledge_base.json not found. Please create one.'']\<rparr>)))
      = [LlmInvoke (build_prompt (PyDict []) q)]
   \<and> json_dumps_indent2 (PyDict []) = ''{}''
   \<and> suffix (''Knowledge Base:\<newline>    {}\<newline>\<newline>    User Query: '' @ q @ ''\<newline>    '')
        (build_prompt (PyDict []) q)"
proof -
  let ?env = "\<lparr>knowledge_base = PyDict [], llm_invoke = llm, translate = translator\<rparr>"
  let ?w = "\<lparr>response_cache = Map.empty, services = x,
           trace = [Print ''Error: knowledge_base.json not found. Please create one.'']\<rparr>"
  have miss: "response_cache ?w (cache_key_of q l) = None"
    by simp
  obtain a x1 where
    a: "llm_invoke ?env (build_prompt (knowledge_base ?env) q) (services ?w) = (a, x1)"
    by (cases "llm_invoke ?env (build_prompt (knowledge_base ?env) q) (services ?w)")
  obtain b x2 where b: "translate ?env l (llm_text a) x1 = (b, x2)"
    by (cases "translate ?env l (llm_text a) x1")
  have "filter is_llm_call (trace (snd (after_translate ?env q l ?w)))
      = [LlmInvoke (build_prompt (PyDict []) q)]"
  proof (cases "l = ''en''")
    case True
    then show ?thesis
      using after_llm_eq(4) [OF a, of "''en''"] by (simp add: after_translate_en)
  next
    case False
    from after_translate_eq(4) [OF False a b] show ?thesis
      by simp
  qed
  then have calls: "filter is_llm_call (trace (snd (generate_response_with_gemini ?env q l ?w)))
      = [LlmInvoke (build_prompt (PyDict []) q)]"
    using generate_miss_result(4) [OF miss, of ?env] by simp
  have "build_prompt (PyDict []) q =
      ''\<newline>    You are a helpful University support chatbot. Your task is to answer user queries based ONLY on the following knowledge base.\<newline>    If the answer is not in the knowledge base, politely say that you don't have that information. Do not make up answers.\<newline>\<newline>    ''
      @ (''Knowledge Base:\<newline>    {}\<newline>\<newline>    User Query: '' @ q @ ''\<newline>    '')"
    by (simp add: build_prompt_def json_dumps_indent2_def)
  then have "suffix (''Knowledge Base:\<newline>    {}\<newline>\<newline>    User Query: '' @ q @ ''\<newline>    '')
        (build_prompt (PyDict []) q)"
    by (simp only: suffix_append suffix_order.refl simp_thms)
  with calls show ?thesis
    by (simp add: startup_def load_knowledge_base_def json_dumps_indent2_def)
qed

section \<open>The handler's response\<close>

lemma chat_nonempty:
  assumes "form_get f ''user_query'' = Some q" and "q \<noteq> ''''"
  shows "chat env f w =
    (jsonify [(''response'', fst (generate_response_with_gemini env q
        (form_get_default f ''language'' ''en'') w))],
     snd (generate_response_with_gemini env q (form_get_default f ''language'' ''en'') w))"
  using assms by (simp add: chat_def Let_def case_prod_beta)

text \<open>
  The handler does answer with another status than 200: a request whose body the framework
  refuses while \<^verbatim>\<open>request.form\<close> is read at line 84 is answered with 413.
\<close>

theorem request_too_large_counterexample:
  "fst (post_chat demo_env (Inl RequestEntityTooLarge) fresh_world) = ErrorPage 413
   \<and> reply_status (fst (post_chat demo_env (Inl RequestEntityTooLarge) fresh_world)) \<noteq> 200"
  by (simp add: post_chat_def reply_status_def)

text \<open>
  Claim C9, as amended. A request whose form the framework refuses to read is answered
  with status 413. For every request whose form is read, every world and every behaviour
  of the two services (returning or raising), the reply has status 200 and its body is a
  JSON object with the one field \<open>response\<close>, holding a text, and on each path the text
  is the one the path stands for: the fixed message for an absent or empty query; the
  cached text on a cache hit; on a miss with the language \<^verbatim>\<open>"en"\<close> the LLM's content, or
  the fallback text when the LLM raised; on a miss with another language the translator's
  output for that text, or that text itself when the translator raised.
\<close>

theorem chat_replies_200_when_form_is_read:
  "post_chat env (Inl RequestEntityTooLarge) w = (ErrorPage 413, w)
   \<and> (\<exists>text.
        fst (post_chat env (Inr f) w)
          = JsonReply \<lparr>status_code = 200, json_body = [(''response'', text)]\<rparr>
        \<and> (form_get f ''user_query'' = None \<or> form_get f ''user_query'' = Some ''''
              \<longrightarrow> text = ''Please enter a question.'')
        \<and> (\<forall>q. form_get f ''user_query'' = Some q \<and> q \<noteq> '''' \<longrightarrow>
              (\<forall>v. response_cache w (cache_key_of q (form_get_default f ''language'' ''en'')) = Some v
                     \<longrightarrow> text = v)
              \<and> (response_cache w (cache_key_of q (form_get_default f ''language'' ''en'')) = None
                   \<longrightarrow> text =
                     (if form_get_default f ''language'' ''en'' = ''en''
                      then llm_text (fst (llm_invoke env (build_prompt (knowledge_base env) q)
                                            (services w)))
                      else translated_text
                             (fst (translate env (form_get_default f ''language'' ''en'')
                                    (llm_text (fst (llm_invoke env
                                       (build_prompt (knowledge_base env) q) (services w))))
                                    (snd (llm_invoke env (build_prompt (knowledge_base env) q)
                                            (services w)))))
                             (llm_text (fst (llm_invoke env (build_prompt (knowledge_base env) q)
                                               (services w))))))))"
proof -
  define l where "l = form_get_default f ''language'' ''en''"
  have refused: "post_chat env (Inl RequestEntityTooLarge) w = (ErrorPage 413, w)"
    by (simp add: post_chat_def)
  have served: "fst (post_chat env (Inr f) w) = JsonReply (fst (chat env f w))"
    by (simp add: post_chat_def case_prod_beta)
  show ?thesis
  proof (cases "form_get f ''user_query'' = None \<or> form_get f ''user_query'' = Some ''''")
    case True
    then have "chat env f w = (jsonify [(''response'', ''Please enter a question.'')], w)"
      by (auto simp add: chat_def Let_def)
    with True refused served show ?thesis
      by (auto simp add: jsonify_def)
  next
    case False
    then obtain q where q: "form_get f ''user_query'' = Some q" "q \<noteq> ''''"
      by (cases "form_get f ''user_query''") auto
    let ?text = "fst (generate_response_with_gemini env q l w)"
    have reply: "fst (post_chat env (Inr f) w)
        = JsonReply \<lparr>status_code = 200, json_body = [(''response'', ?text)]\<rparr>"
      unfolding served chat_nonempty [OF q] l_def by (simp add: jsonify_def)
    have hit: "?text = v" if "response_cache w (cache_key_of q l) = Some v" for v
      using generate_hit [OF that, of env] by simp
    have miss: "?text =
        (if l = ''en''
         then llm_text (fst (llm_invoke env (build_prompt (knowledge_base env) q) (services w)))
         else translated_text
                (fst (translate env l
                       (llm_text (fst (llm_invoke env (build_prompt (knowledge_base env) q)
                                         (services w))))
                       (snd (llm_invoke env (build_prompt (knowledge_base env) q) (services w)))))
                (llm_text (fst (llm_invoke env (build_prompt (knowledge_base env) q)
                                  (services w)))))"
      if none: "response_cache w (cache_key_of q l) = None"
    proof -
      obtain a x1 where
        a: "llm_invoke env (build_prompt (knowledge_base env) q) (services w) = (a, x1)"
        by (cases "llm_invoke env (build_prompt (knowledge_base env) q) (services w)")
      obtain b x2 where b: "translate env l (llm_text a) x1 = (b, x2)"
        by (cases "translate env l (llm_text a) x1")
      note g = generate_miss_result(1) [OF none, of env]
      show ?thesis
      proof (cases "l = ''en''")
        case True
        with g after_llm_eq(1) [OF a, of "''en''"] a show ?thesis
          by (simp add: after_translate_en)
      next
        case False
        with g after_translate_eq(1) [OF False a b] a b show ?thesis
          by simp
      qed
    qed
    from False q refused reply hit miss show ?thesis
      unfolding l_def by auto
  qed
qed

text \<open>
  Three requests whose form is read: a failing translator (the English answer comes
  back), a failing LLM (the fallback text comes back), no query (the fixed message).
\<close>

theorem chat_replies_200_when_form_is_read_witness:
  "fst (post_chat translator_down_env (Inr [(''user_query'', ''hi''), (''language'', ''es'')])
          fresh_world)
     = JsonReply \<lparr>status_code = 200, json_body = [(''response'', ''answer 0'')]\<rparr>
   \<and> fst (post_chat llm_down_env (Inr [(''user_query'', ''hi'')]) fresh_world)
     = JsonReply \<lparr>status_code = 200, json_body = [(''response'', llm_fallback)]\<rparr>
   \<and> fst (post_chat demo_env (Inr [(''language'', ''es'')]) fresh_world)
     = JsonReply \<lparr>status_code = 200, json_body = [(''response'', ''Please enter a question.'')]\<rparr>"
proof -
  let ?f1 = "[(''user_query'', ''hi''), (''language'', ''es'')]"
  let ?f2 = "[(''user_query'', ''hi'')]"
  let ?f3 = "[(''language'', ''es'')]"
  from chat_replies_200_when_form_is_read [of translator_down_env fresh_world ?f1]
  obtain t1 where
    r1: "fst (post_chat translator_down_env (Inr ?f1) fresh_world)
           = JsonReply \<lparr>status_code = 200, json_body = [(''response'', t1)]\<rparr>"
    and p1: "\<forall>q. form_get ?f1 ''user_query'' = Some q \<and> q \<noteq> '''' \<longrightarrow>
              (response_cache fresh_world (cache_key_of q (form_get_default ?f1 ''language'' ''en'')) = None
                   \<longrightarrow> t1 =
                     (if form_get_default ?f1 ''language'' ''en'' = ''en''
                      then llm_text (fst (llm_invoke translator_down_env (build_prompt (knowledge_base translator_down_env) q)
                                            (services fresh_world)))
                      else translated_text
                             (fst (translate translator_down_env (form_get_default ?f1 ''language'' ''en'')
                                    (llm_text (fst (llm_invoke translator_down_env
                                       (build_prompt (knowledge_base translator_down_env) q) (services fresh_world))))
                                    (snd (llm_invoke translator_down_env (build_prompt (knowledge_base translator_down_env) q)
                                            (services fresh_world)))))
                             (llm_text (fst (llm_invoke translator_down_env (build_prompt (knowledge_base translator_down_env) q)
                                               (services fresh_world))))))"
    by blast
  from p1 [rule_format, of "''hi''"] have t1: "t1 = ''answer 0''"
    by (simp add: form_get_def form_get_default_def counting_llm_def failing_translator_def
        repr_nat_0 llm_text_def translated_text_def)
  from chat_replies_200_when_form_is_read [of llm_down_env fresh_world ?f2]
  obtain t2 where
    r2: "fst (post_chat llm_down_env (Inr ?f2) fresh_world)
           = JsonReply \<lparr>status_code = 200, json_body = [(''response'', t2)]\<rparr>"
    and p2: "\<forall>q. form_get ?f2 ''user_query'' = Some q \<and> q \<noteq> '''' \<longrightarrow>
              (response_cache fresh_world (cache_key_of q (form_get_default ?f2 ''language'' ''en'')) = None
                   \<longrightarrow> t2 =
                     (if form_get_default ?f2 ''language'' ''en'' = ''en''
                      then llm_text (fst (llm_invoke llm_down_env (build_prompt (knowledge_base llm_down_env) q)
                                            (services fresh_world)))
                      else translated_text
                             (fst (translate llm_down_env (form_get_default ?f2 ''language'' ''en'')
                                    (llm_text (fst (llm_invoke llm_down_env
                                       (build_prompt (knowledge_base llm_down_env) q) (services fresh_world))))
                                    (snd (llm_invoke llm_down_env (build_prompt (knowledge_base llm_down_env) q)
                                            (services fresh_world)))))
                             (llm_text (fst (llm_invoke llm_down_env (build_prompt (knowledge_base llm_down_env) q)
                                               (services fresh_world))))))"
    by blast
  from p2 [rule_format, of "''hi''"] have t2: "t2 = llm_fallback"
    by (simp add: form_get_def form_get_default_def failing_llm_def llm_text_def)
  from chat_replies_200_when_form_is_read [of demo_env fresh_world ?f3]
  obtain t3 where
    r3: "fst (post_chat demo_env (Inr ?f3) fresh_world)
           = JsonReply \<lparr>status_code = 200, json_body = [(''response'', t3)]\<rparr>"
    and p3: "form_get ?f3 ''user_query'' = None \<or> form_get ?f3 ''user_query'' = Some ''''
              \<longrightarrow> t3 = ''Please enter a question.''"
    by blast
  from p3 have t3: "t3 = ''Please enter a question.''"
    by (simp add: form_get_def)
  from r1 r2 r3 t1 t2 t3 show ?thesis
    by simp
qed

section \<open>The serialisation is indented\<close>










lemma skip_string_escaped: "skip_string (CHR 0x5C # c # rest) = skip_string rest"
  by simp


























section \<open>The serialisation can be read back\<close>

























lemma take2_u_escape: "take 2 (u_escape n @ rest) = [CHR 0x5C, CHR ''u'']"
  by (simp add: u_escape_def)

lemma drop2_u_escape: "drop 2 (u_escape n @ rest) = drop 2 (u_escape n) @ rest"
  by (simp add: u_escape_def)








lemma char_of_plain:
  fixes n :: nat
  assumes "0x20 \<le> n" "n \<le> 0x7E"
  shows "(of_char (char_of n :: char) :: nat) = n"
  using assms by simp













lemma skip_ws_idem: "skip_ws (skip_ws x) = skip_ws x"
  unfolding skip_ws_def by (induction x) simp_all

















section \<open>The prompt\<close>

subsection \<open>Sublists\<close>

lemma sublist_within: "sublist xs ys \<Longrightarrow> sublist xs (ps @ ys @ ss)"
proof -
  assume "sublist xs ys"
  then obtain a b where "ys = a @ xs @ b"
    by (auto simp: sublist_def)
  then have "ps @ ys @ ss = (ps @ a) @ xs @ (b @ ss)"
    by simp
  then show ?thesis
    unfolding sublist_def by blast
qed

lemma sublist_left: "sublist xs ys \<Longrightarrow> sublist xs (ys @ ss)"
  using sublist_within [of xs ys "[]" ss] by simp


subsection \<open>Serialisations of the example knowledge bases\<close>














lemma wf_ustr_ustr: "wf_ustr (ustr s)"
proof -
  have small: "list_all (\<lambda>n. n < 256) (ustr s)"
    by (induction s) (simp_all add: ustr_def)
  have "list_all (\<lambda>n. n < 256) t \<Longrightarrow> no_surrogate_pair t" for t
    by (induction t rule: no_surrogate_pair.induct) (simp_all add: is_high_surrogate_def)
  moreover have "list_all (\<lambda>n. n < 256) t \<Longrightarrow> list_all (\<lambda>n. n < 0x110000) t" for t :: ustr
    by (induction t) simp_all
  ultimately show ?thesis
    using small by (simp add: wf_ustr_def)
qed

lemma wf_json_library_kb: "wf_json library_kb"
  by (simp add: library_kb_def wf_ustr_ustr)




subsection \<open>What the prompt contains\<close>



end
